theory Spec2Isabelle
  imports Main "HOL-Library.Sublist"
begin

section \<open>The build step of dirac-webapp-packaging\<close>

text \<open>
  The command class \<open>build_extjs_sources\<close> of \<open>dirac_webapp_packaging/__init__.py\<close>
  compiles the web sources of a DIRAC extension inside a container. It looks for
  \<open>docker\<close> and then \<open>singularity\<close>, derives the bind mounts from the entry points of the
  group \<open>dirac\<close>, and runs the resulting command line with \<open>subprocess.check_call\<close>.

  The embedding follows the Python text. What the code reads from its surroundings is
  a record \<open>env\<close>; what it changes is a record \<open>state\<close>; every \<open>raise\<close> is a value of
  the type \<open>error\<close>, and a method is a function from the state to a result and the new
  state. Output written through \<open>distutils.log\<close> is not part of the state.
\<close>

subsection \<open>Errors, surroundings and state\<close>

text \<open>
  The class raises \<open>NotImplementedError\<close> at three places, with different arguments; the
  constructors keep them apart and carry the argument. \<open>CalledProcessError\<close> comes from
  \<open>subprocess.check_call\<close> and carries the return code and the command,
  \<open>FileExistsError\<close> and \<open>FileNotFoundError\<close> come from \<open>Path.mkdir\<close>, and
  \<open>AttributeError\<close> from reading an attribute the object does not have.
\<close>

datatype error =
    NotImplementedError_pkg_name "string list"
  | NotImplementedError_static_dirs "string list"
  | NotImplementedError_no_command
  | AttributeError string
  | FileExistsError "string list"
  | FileNotFoundError "string list"
  | CalledProcessError int "string list"

text \<open>
  An entry point of the group \<open>dirac\<close>: its module name, the value of
  \<open>metadata.get("web_resources", {}).get("static")\<close> for the metadata its factory
  returns (\<open>None\<close> when a key is absent), and the components of the absolute path
  \<open>spec.origin\<close> of the module's file.
\<close>

record entrypoint =
  ep_module :: string
  ep_static :: "string list option"
  ep_origin :: "string list"

text \<open>
  What the code reads: \<open>os.environ\<close>, \<open>self.distribution.packages\<close>, the entry points,
  the working directory, the user and group identities, \<open>shutil.which\<close>, the components
  of the path of the directory that \<open>tempfile.TemporaryDirectory()\<close> creates, and the
  return code of the child process for a given command line.
\<close>

record env =
  environ :: "string \<rightharpoonup> string"
  distribution_packages :: "string list"
  entry_points :: "entrypoint list"
  getcwd :: string
  getuid :: nat
  getgid :: nat
  which :: "string \<Rightarrow> string option"
  mkdtemp :: "string list"
  returncode :: "string list \<Rightarrow> int"

text \<open>
  What the code changes: the string attributes of the command object (by attribute
  name), the temporary directory held in \<open>self._tmpdir\<close> (\<open>None\<close> while there is none,
  otherwise the set of directories inside it, as paths relative to it, the empty path
  being the directory itself), the directories of the host outside of it (as lists of
  components from the root), the executables looked up so far and the command lines
  executed so far.
\<close>

record state =
  attrs :: "string \<rightharpoonup> string"
  tmpdir :: "string list set option"
  fs :: "string list set"
  probed :: "string list"
  spawned :: "string list list"

type_synonym 'a action = "state \<Rightarrow> (error + 'a) \<times> state"

definition returnE :: "'a \<Rightarrow> 'a action" where
  "returnE x st = (Inr x, st)"

definition raiseE :: "error \<Rightarrow> 'a action" where
  "raiseE e st = (Inl e, st)"

definition bindE :: "'a action \<Rightarrow> ('a \<Rightarrow> 'b action) \<Rightarrow> 'b action" where
  "bindE f g st = (case f st of (Inl e, st1) \<Rightarrow> (Inl e, st1) | (Inr x, st1) \<Rightarrow> g x st1)"

subsection \<open>Strings and paths\<close>

text \<open>\<open>str(n)\<close> for a natural number, as the f-string of the \<open>-u\<close> flag formats it.\<close>

definition digit :: "nat \<Rightarrow> char" where
  "digit d = ''0123456789'' ! d"

fun str_nat :: "nat \<Rightarrow> string" where
  "str_nat n = (if n < 10 then [digit n] else str_nat (n div 10) @ [digit (n mod 10)])"

declare str_nat.simps [simp del]

text \<open>
  A \<open>pathlib\<close> path is the list of its components. \<open>str_path\<close> is \<open>str\<close> of an absolute
  path, \<open>parent\<close> is \<open>Path.parent\<close>, and \<open>path_parts\<close> gives the components that
  \<open>base / name\<close> appends to \<open>base\<close> for a relative \<open>name\<close>: the name is cut at every
  slash, and empty components and \<open>.\<close> are dropped.
\<close>

definition str_path :: "string list \<Rightarrow> string" where
  "str_path p = (if p = [] then ''/'' else concat (map ((#) CHR ''/'') p))"

definition parent :: "string list \<Rightarrow> string list" where
  "parent p = butlast p"

fun split_on :: "char \<Rightarrow> string \<Rightarrow> string list" where
  "split_on c [] = [[]]"
| "split_on c (x # xs) =
     (if x = c then [] # split_on c xs
      else (case split_on c xs of [] \<Rightarrow> [[x]] | w # ws \<Rightarrow> (x # w) # ws))"

definition path_parts :: "string \<Rightarrow> string list" where
  "path_parts name = filter (\<lambda>w. w \<noteq> [] \<and> w \<noteq> ''.'') (split_on CHR ''/'' name)"

text \<open>
  \<open>mkdir(parents=True, exist_ok=True)\<close> adds the directory and every missing ancestor;
  \<open>mkdir()\<close> raises when the directory exists or its parent does not.
\<close>

definition mkdir_parents :: "string list \<Rightarrow> string list set \<Rightarrow> string list set" where
  "mkdir_parents p dirs = dirs \<union> set (prefixes p)"

definition mkdir :: "string list \<Rightarrow> string list set \<Rightarrow> error + string list set" where
  "mkdir p dirs =
     (if p \<in> dirs then Inl (FileExistsError p)
      else if butlast p \<notin> dirs then Inl (FileNotFoundError p)
      else Inr (insert p dirs))"

subsection \<open>The class \<open>build_extjs_sources\<close>\<close>

definition docker_image :: string where
  "docker_image = ''diracgrid/dirac-distribution:latest''"

definition available_exes :: "string list" where
  "available_exes = [''docker'', ''singularity'']"

text \<open>
  The property \<open>_pkg_name\<close>. Inside the class body the assignment \<open>self.__name = ...\<close>
  and the read \<open>self.__name\<close> are name-mangled by Python to the attribute
  \<open>_build_extjs_sources__name\<close>; the string argument of \<open>hasattr(self, "__name")\<close> is
  not.
\<close>

definition return_name :: "string action" where
  "return_name st =
     (case attrs st ''_build_extjs_sources__name'' of
        None \<Rightarrow> (Inl (AttributeError ''_build_extjs_sources__name''), st)
      | Some n \<Rightarrow> (Inr n, st))"

definition pkg_name :: "env \<Rightarrow> string action" where
  "pkg_name env st =
     (if attrs st ''__name'' = None then
        (let packages = filter (\<lambda>x. CHR ''.'' \<notin> set x) (distribution_packages env)
         in if length packages \<noteq> 1 then (Inl (NotImplementedError_pkg_name packages), st)
            else return_name
                   (st\<lparr>attrs := (attrs st)(''_build_extjs_sources__name'' \<mapsto> packages ! 0)\<rparr>))
      else return_name st)"

definition path :: "env \<Rightarrow> string" where
  "path env = getcwd env"

text \<open>
  The generator \<open>_bind_mounts\<close>, as the pairs it yields, in order, and the exception
  that ends it, if one does. The state it returns holds what it did up to that point.
\<close>

fun bind_mounts ::
  "env \<Rightarrow> entrypoint list \<Rightarrow> state \<Rightarrow> ((string \<times> string) list \<times> error option) \<times> state" where
  "bind_mounts env [] st = (([], None), st)"
| "bind_mounts env (entrypoint # rest) st =
     (case pkg_name env st of
        (Inl e, st1) \<Rightarrow> (([], Some e), st1)
      | (Inr name, st1) \<Rightarrow>
          if name = ep_module entrypoint then bind_mounts env rest st1
          else
            (case ep_static entrypoint of
               None \<Rightarrow> bind_mounts env rest st1
             | Some [] \<Rightarrow> bind_mounts env rest st1
             | Some (d # ds) \<Rightarrow>
                 (let module_path = parent (ep_origin entrypoint);
                      first = (ep_module entrypoint, str_path module_path)
                  in if length (d # ds) \<noteq> 1
                     then (([first], Some (NotImplementedError_static_dirs (d # ds))), st1)
                     else
                       (let st2 = st1\<lparr>fs := mkdir_parents (module_path @ [''WebApp'', ''static''])
                                                (fs st1)\<rparr>;
                            second = (ep_module entrypoint @ ''/WebApp/static'', (d # ds) ! 0);
                            ((yielded, exc), st3) = bind_mounts env rest st2
                        in ((first # second # yielded, exc), st3)))))"

text \<open>The property \<open>_docker_args\<close>; \<open>docker_loop\<close> is the body of its \<open>for\<close> loop.\<close>

fun docker_loop :: "(string \<times> string) list \<Rightarrow> string list \<Rightarrow> string list" where
  "docker_loop [] cmd = cmd"
| "docker_loop ((name, p) # rest) cmd =
     docker_loop rest (cmd @ [''-v='' @ p @ '':/opt/'' @ name @ '':ro''])"

definition docker_args :: "env \<Rightarrow> string list action" where
  "docker_args env st =
     (let cmd0 = [''run'', ''--rm''];
          ((yielded, exc), st1) = bind_mounts env (entry_points env) st;
          cmd1 = docker_loop yielded cmd0
      in case exc of
           Some e \<Rightarrow> (Inl e, st1)
         | None \<Rightarrow>
             bindE (pkg_name env) (\<lambda>n1. bindE (pkg_name env) (\<lambda>n2.
               returnE (cmd1
                 @ [''-v='' @ path env @ ''/src/'' @ n1 @ '':/opt/'' @ n2]
                 @ [''-w=/tmp'',
                    ''-u='' @ str_nat (getuid env) @ '':'' @ str_nat (getgid env),
                    docker_image,
                    ''/dirac-webapp-compile.py'']))) st1)"

text \<open>
  The property \<open>_singularity_args\<close>. \<open>tempfile.TemporaryDirectory()\<close> creates an empty
  directory, which the object keeps in \<open>self._tmpdir\<close>; the code calls \<open>__enter__\<close> on
  it and nothing else. \<open>singularity_loop\<close> is the body of the \<open>for\<close> loop.
\<close>

definition tmp_mkdir_parents :: "string list \<Rightarrow> state \<Rightarrow> state" where
  "tmp_mkdir_parents p st = st\<lparr>tmpdir := map_option (mkdir_parents p) (tmpdir st)\<rparr>"

definition tmp_mkdir :: "string list \<Rightarrow> unit action" where
  "tmp_mkdir p st =
     (case tmpdir st of
        None \<Rightarrow> (Inl (FileNotFoundError p), st)
      | Some dirs \<Rightarrow>
          (case mkdir p dirs of
             Inl e \<Rightarrow> (Inl e, st)
           | Inr dirs' \<Rightarrow> (Inr (), st\<lparr>tmpdir := Some dirs'\<rparr>)))"

fun singularity_loop ::
  "(string \<times> string) list \<Rightarrow> string list \<Rightarrow> state \<Rightarrow> string list \<times> state" where
  "singularity_loop [] cmd st = (cmd, st)"
| "singularity_loop ((name, p) # rest) cmd st =
     singularity_loop rest (cmd @ [''--bind='' @ p @ '':/opt/'' @ name @ '':ro''])
       (tmp_mkdir_parents (path_parts name) st)"

definition singularity_args :: "env \<Rightarrow> string list action" where
  "singularity_args env st =
     (let cmd0 = [''run'', ''--writable'', ''--containall''];
          st1 = st\<lparr>tmpdir := Some {[]}\<rparr>;
          tmp = mkdtemp env;
          cmd1 = cmd0 @ [''--bind='' @ str_path tmp @ '':/opt''];
          ((yielded, exc), st2) = bind_mounts env (entry_points env) st1;
          (cmd2, st3) = singularity_loop yielded cmd1 st2
      in case exc of
           Some e \<Rightarrow> (Inl e, st3)
         | None \<Rightarrow>
             bindE (pkg_name env) (\<lambda>n0. bindE (tmp_mkdir (path_parts n0)) (\<lambda>_.
             bindE (pkg_name env) (\<lambda>n1. bindE (pkg_name env) (\<lambda>n2.
               returnE (cmd2
                 @ [''--bind='' @ path env @ ''/src/'' @ n1 @ '':/opt/'' @ n2]
                 @ [''docker://'' @ docker_image,
                    ''/dirac-webapp-compile.py''])))))
               st3)"

text \<open>
  The property \<open>_cmd\<close>. \<open>find_exe\<close> is its \<open>for ... else\<close> loop: it assigns the loop
  variable \<open>self._exe\<close>, asks \<open>shutil.which\<close>, and stops at the first answer that is
  not \<open>None\<close>. \<open>getattr_args\<close> is \<open>getattr(self, f"_{self._exe}_args")\<close>.
\<close>

fun find_exe :: "env \<Rightarrow> string list \<Rightarrow> state \<Rightarrow> (string \<times> string) option \<times> state" where
  "find_exe env [] st = (None, st)"
| "find_exe env (exe # rest) st =
     (let st1 = st\<lparr>attrs := (attrs st)(''_exe'' \<mapsto> exe), probed := probed st @ [exe]\<rparr>
      in case which env exe of
           Some full_exe \<Rightarrow> (Some (exe, full_exe), st1)
         | None \<Rightarrow> find_exe env rest st1)"

definition getattr_args :: "string \<Rightarrow> env \<Rightarrow> string list action" where
  "getattr_args attr env =
     (if attr = ''_docker_args'' then docker_args env
      else if attr = ''_singularity_args'' then singularity_args env
      else raiseE (AttributeError attr))"

definition cmd :: "env \<Rightarrow> string list action" where
  "cmd env st =
     (case find_exe env available_exes st of
        (None, st1) \<Rightarrow> (Inl NotImplementedError_no_command, st1)
      | (Some (exe, full_exe), st1) \<Rightarrow>
          bindE (getattr_args (''_'' @ exe @ ''_args'') env) (\<lambda>args.
          bindE (pkg_name env) (\<lambda>n.
            returnE ([full_exe] @ args @ [''-D=/opt'', ''-n='' @ n, ''--py3-style''])))
            st1)"

text \<open>
  The method \<open>run\<close>. \<open>check_call\<close> executes the command line and raises
  \<open>CalledProcessError\<close> when the return code is not zero. \<open>run\<close> returns \<open>None\<close> on
  both of its normal exits.
\<close>

definition check_call :: "env \<Rightarrow> string list \<Rightarrow> unit action" where
  "check_call env c st =
     (let st1 = st\<lparr>spawned := spawned st @ [c]\<rparr>;
          rc = returncode env c
      in if rc \<noteq> 0 then (Inl (CalledProcessError rc c), st1) else (Inr (), st1))"

definition run :: "env \<Rightarrow> unit action" where
  "run env st =
     (if environ env ''DIRAC_WEBAPP_NO_COMPILE'' \<noteq> None then (Inr (), st)
      else bindE (cmd env) (check_call env) st)"


subsection \<open>The mount plan\<close>

text \<open>
  Both \<open>_docker_args\<close> and \<open>_singularity_args\<close> turn every pair \<open>(name, path)\<close> that
  \<open>_bind_mounts\<close> yields into a read-only bind of \<open>path\<close> at \<open>/opt/name\<close>, and add
  one bind without the \<open>:ro\<close> suffix for the package itself. \<open>mount_plan\<close> is this list
  of bindings, with container paths relative to \<open>/opt\<close>; \<open>bind_spec\<close> is the text of a
  binding after \<open>-v=\<close> or \<open>--bind=\<close>.
\<close>

record mount_binding =
  container_path :: string
  host_path :: string
  read_only :: bool

definition mount_plan :: "env \<Rightarrow> mount_binding list action" where
  "mount_plan env st =
     (let ((yielded, exc), st1) = bind_mounts env (entry_points env) st;
          plan1 = map (\<lambda>(name, p).
                    \<lparr>container_path = name, host_path = p, read_only = True\<rparr>) yielded
      in case exc of
           Some e \<Rightarrow> (Inl e, st1)
         | None \<Rightarrow>
             bindE (pkg_name env) (\<lambda>n1. bindE (pkg_name env) (\<lambda>n2.
               returnE (plan1 @ [\<lparr>container_path = n2,
                                  host_path = path env @ ''/src/'' @ n1,
                                  read_only = False\<rparr>]))) st1)"

definition bind_spec :: "mount_binding \<Rightarrow> string" where
  "bind_spec b =
     host_path b @ '':/opt/'' @ container_path b @ (if read_only b then '':ro'' else [])"

text \<open>
  The binds an argument vector asks for: the arguments that start with \<open>-v=\<close> for
  docker and with \<open>--bind=\<close> for singularity, without that prefix. The singularity
  vector also binds the staging directory at \<open>/opt\<close> itself, as its first bind; the
  logical binds are the others.
\<close>

definition docker_binds :: "string list \<Rightarrow> string list" where
  "docker_binds args = map (drop 3) (filter (\<lambda>a. take 3 a = ''-v='') args)"

definition singularity_binds :: "string list \<Rightarrow> string list" where
  "singularity_binds args = map (drop 7) (filter (\<lambda>a. take 7 a = ''--bind='') args)"

definition staging_bind :: "env \<Rightarrow> string" where
  "staging_bind env = str_path (mkdtemp env) @ '':/opt''"

definition logical_binds_docker :: "string list \<Rightarrow> string list" where
  "logical_binds_docker args = docker_binds args"

definition logical_binds_singularity :: "env \<Rightarrow> string list \<Rightarrow> string list" where
  "logical_binds_singularity env args = remove1 (staging_bind env) (singularity_binds args)"

definition identity_flag :: "env \<Rightarrow> string" where
  "identity_flag env = ''-u='' @ str_nat (getuid env) @ '':'' @ str_nat (getgid env)"

text \<open>
  The argument vectors written in terms of a plan: what \<open>_docker_args\<close> and
  \<open>_singularity_args\<close> return when the plan is the one they compute.
\<close>

definition docker_render :: "env \<Rightarrow> mount_binding list \<Rightarrow> string list" where
  "docker_render env plan =
     [''run'', ''--rm'']
       @ map (\<lambda>b. ''-v='' @ bind_spec b) plan
       @ [''-w=/tmp'', identity_flag env, docker_image, ''/dirac-webapp-compile.py'']"

definition singularity_render :: "env \<Rightarrow> mount_binding list \<Rightarrow> string list" where
  "singularity_render env plan =
     [''run'', ''--writable'', ''--containall'', ''--bind='' @ staging_bind env]
       @ map (\<lambda>b. ''--bind='' @ bind_spec b) plan
       @ [''docker://'' @ docker_image, ''/dirac-webapp-compile.py'']"

subsection \<open>Notions used in the statements\<close>

text \<open>
  \<open>top_level\<close> is the list comprehension of \<open>_pkg_name\<close>. \<open>name_attr_unset\<close> says that
  the object has no attribute called \<open>__name\<close>, which holds for a command object that
  only this class has written to. A \<open>valid_name\<close> is a single path component, as the
  names of Python modules and packages are.
\<close>

definition top_level :: "string list \<Rightarrow> string list" where
  "top_level packages = filter (\<lambda>x. CHR ''.'' \<notin> set x) packages"

definition name_attr_unset :: "state \<Rightarrow> bool" where
  "name_attr_unset st = (attrs st ''__name'' = None)"

definition named :: "string \<Rightarrow> state \<Rightarrow> state" where
  "named n st = st\<lparr>attrs := (attrs st)(''_build_extjs_sources__name'' \<mapsto> n)\<rparr>"

definition valid_name :: "string \<Rightarrow> bool" where
  "valid_name n = (n \<noteq> [] \<and> n \<noteq> ''.'' \<and> CHR ''/'' \<notin> set n)"

text \<open>
  The directories an entry point declares; whether it contributes bind mounts to the
  build of \<open>pkg\<close> (it is not the package's own entry point and declares at least one
  directory); whether it declares more than one; and the pairs a contributing entry
  point with one directory makes the generator yield.
\<close>

definition declared :: "entrypoint \<Rightarrow> string list" where
  "declared e = (case ep_static e of None \<Rightarrow> [] | Some ds \<Rightarrow> ds)"

definition contributes :: "string \<Rightarrow> entrypoint \<Rightarrow> bool" where
  "contributes pkg e = (ep_module e \<noteq> pkg \<and> declared e \<noteq> [])"

definition contributions :: "string \<Rightarrow> entrypoint list \<Rightarrow> entrypoint list" where
  "contributions pkg eps = filter (contributes pkg) eps"

definition ambiguous :: "string \<Rightarrow> entrypoint \<Rightarrow> bool" where
  "ambiguous pkg e = (contributes pkg e \<and> length (declared e) \<noteq> 1)"

definition yields :: "entrypoint \<Rightarrow> (string \<times> string) list" where
  "yields e =
     [(ep_module e, str_path (parent (ep_origin e))),
      (ep_module e @ ''/WebApp/static'', declared e ! 0)]"

definition binding_of :: "string \<times> string \<Rightarrow> mount_binding" where
  "binding_of y = \<lparr>container_path = fst y, host_path = snd y, read_only = True\<rparr>"

definition self_binding :: "env \<Rightarrow> string \<Rightarrow> mount_binding" where
  "self_binding env pkg =
     \<lparr>container_path = pkg, host_path = path env @ ''/src/'' @ pkg, read_only = False\<rparr>"

definition plan_of :: "env \<Rightarrow> string \<Rightarrow> mount_binding list" where
  "plan_of env pkg =
     map binding_of (concat (map yields (contributions pkg (entry_points env))))
       @ [self_binding env pkg]"

text \<open>
  The mount plan as the specification words it: one read-only binding per
  contribution, of the declared static directory at \<open><module>/WebApp/static\<close>, and the
  binding of the package itself.
\<close>

definition mount_plan_spec :: "env \<Rightarrow> string \<Rightarrow> mount_binding list" where
  "mount_plan_spec env pkg =
     map (\<lambda>e. \<lparr>container_path = ep_module e @ ''/WebApp/static'',
               host_path = declared e ! 0, read_only = True\<rparr>)
         (contributions pkg (entry_points env))
       @ [self_binding env pkg]"

subsection \<open>Example surroundings\<close>

text \<open>
  The example of the specification: the plugin \<open>pluginA\<close> with the static directory
  \<open>/host/a/static\<close>, the package \<open>mypkg\<close>, built in \<open>/repo\<close>. \<open>env_docker\<close> finds docker,
  \<open>env_singularity\<close> only singularity, \<open>env_none\<close> neither; in \<open>env_killed\<close> and
  \<open>env_singularity_killed\<close> the child returns 137; \<open>env_skip\<close> sets the skip variable;
  \<open>env_two\<close> and \<open>env_singularity_two\<close> hold a plugin with two static directories.
  \<open>new_command\<close> is the command object before \<open>run\<close>.
\<close>

definition pluginA :: entrypoint where
  "pluginA = \<lparr>ep_module = ''pluginA'', ep_static = Some [''/host/a/static''],
              ep_origin = [''site'', ''pluginA'', ''__init__.py'']\<rparr>"

definition env_docker :: env where
  "env_docker =
     \<lparr>environ = Map.empty,
      distribution_packages = [''mypkg'', ''mypkg.sub''],
      entry_points = [pluginA],
      getcwd = ''/repo'', getuid = 1000, getgid = 100,
      which = (\<lambda>x. if x = ''docker'' then Some ''/usr/bin/docker'' else None),
      mkdtemp = [''tmp'', ''tmpab12''],
      returncode = (\<lambda>c. 0)\<rparr>"

definition env_singularity :: env where
  "env_singularity =
     env_docker\<lparr>which := (\<lambda>x. if x = ''singularity'' then Some ''/usr/bin/singularity''
                               else None)\<rparr>"

definition env_none :: env where
  "env_none = env_docker\<lparr>which := (\<lambda>x. None)\<rparr>"

definition env_killed :: env where
  "env_killed = env_docker\<lparr>returncode := (\<lambda>c. 137)\<rparr>"

definition env_skip :: env where
  "env_skip = env_docker\<lparr>environ := [''DIRAC_WEBAPP_NO_COMPILE'' \<mapsto> ''1'']\<rparr>"

definition plugin_two :: "string \<Rightarrow> entrypoint" where
  "plugin_two m =
     \<lparr>ep_module = m, ep_static = Some [''/s1'', ''/s2''],
      ep_origin = [''site'', m, ''__init__.py'']\<rparr>"

definition env_two :: "string \<Rightarrow> env" where
  "env_two m = env_docker\<lparr>entry_points := [plugin_two m]\<rparr>"

definition env_singularity_killed :: env where
  "env_singularity_killed = env_singularity\<lparr>returncode := (\<lambda>c. 137)\<rparr>"

definition env_singularity_two :: env where
  "env_singularity_two = env_singularity\<lparr>entry_points := [plugin_two ''pluginA'']\<rparr>"

definition new_command :: state where
  "new_command = \<lparr>attrs = Map.empty, tmpdir = None, fs = {}, probed = [], spawned = []\<rparr>"

definition docker_args_example :: "string list" where
  "docker_args_example =
     [''run'', ''--rm'',
      ''-v=/site/pluginA:/opt/pluginA:ro'',
      ''-v=/host/a/static:/opt/pluginA/WebApp/static:ro'',
      ''-v=/repo/src/mypkg:/opt/mypkg'',
      ''-w=/tmp'', ''-u=1000:100'',
      ''diracgrid/dirac-distribution:latest'',
      ''/dirac-webapp-compile.py'']"

definition singularity_args_example :: "string list" where
  "singularity_args_example =
     [''run'', ''--writable'', ''--containall'',
      ''--bind=/tmp/tmpab12:/opt'',
      ''--bind=/site/pluginA:/opt/pluginA:ro'',
      ''--bind=/host/a/static:/opt/pluginA/WebApp/static:ro'',
      ''--bind=/repo/src/mypkg:/opt/mypkg'',
      ''docker://diracgrid/dirac-distribution:latest'',
      ''/dirac-webapp-compile.py'']"


definition cmd_example :: "string list" where
  "cmd_example =
     [''/usr/bin/docker''] @ docker_args_example @ [''-D=/opt'', ''-n=mypkg'', ''--py3-style'']"

definition mount_plan_example :: "mount_binding list" where
  "mount_plan_example =
     [\<lparr>container_path = ''pluginA'', host_path = ''/site/pluginA'', read_only = True\<rparr>,
      \<lparr>container_path = ''pluginA/WebApp/static'', host_path = ''/host/a/static'',
        read_only = True\<rparr>,
      \<lparr>container_path = ''mypkg'', host_path = ''/repo/src/mypkg'', read_only = False\<rparr>]"

section \<open>Facts about the model\<close>

subsection \<open>The package name and the generator\<close>

lemma name_attr_unset_named [simp]: "name_attr_unset (named n st) = name_attr_unset st"
  by (simp add: name_attr_unset_def named_def)

lemma named_named [simp]: "named n (named n st) = named n st"
  by (simp add: named_def)

lemma pkg_name_ok:
  "name_attr_unset st \<Longrightarrow> top_level (distribution_packages env) = [pkg] \<Longrightarrow>
   pkg_name env st = (Inr pkg, named pkg st)"
  by (simp add: pkg_name_def name_attr_unset_def top_level_def named_def return_name_def domIff)

lemma pkg_name_error:
  "name_attr_unset st \<Longrightarrow> length (top_level (distribution_packages env)) \<noteq> 1 \<Longrightarrow>
   pkg_name env st = (Inl (NotImplementedError_pkg_name (top_level (distribution_packages env))), st)"
  by (simp add: pkg_name_def name_attr_unset_def top_level_def domIff)

lemma pkg_name_frame:
  "tmpdir (snd (pkg_name env st)) = tmpdir st \<and> fs (snd (pkg_name env st)) = fs st
   \<and> probed (snd (pkg_name env st)) = probed st \<and> spawned (snd (pkg_name env st)) = spawned st"
  by (simp add: pkg_name_def return_name_def Let_def split: option.splits)

lemma bind_mounts_frame:
  "tmpdir (snd (bind_mounts env eps st)) = tmpdir st
   \<and> probed (snd (bind_mounts env eps st)) = probed st
   \<and> spawned (snd (bind_mounts env eps st)) = spawned st"
proof (induction eps arbitrary: st)
  case Nil
  show ?case by simp
next
  case (Cons e eps)
  obtain r st1 where p: "pkg_name env st = (r, st1)" by (cases "pkg_name env st")
  have f: "tmpdir st1 = tmpdir st" "probed st1 = probed st" "spawned st1 = spawned st"
    using pkg_name_frame [of env st] p by simp_all
  show ?case
    using p f Cons.IH
    by (simp add: Let_def case_prod_beta split: sum.splits option.splits list.splits)
qed


lemma pkg_name_attr:
  "attrs (snd (pkg_name env st)) ''__name'' = attrs st ''__name''"
  by (simp add: pkg_name_def return_name_def Let_def split: option.splits)

lemma bind_mounts_attr:
  "attrs (snd (bind_mounts env eps st)) ''__name'' = attrs st ''__name''"
proof (induction eps arbitrary: st)
  case Nil
  show ?case by simp
next
  case (Cons e eps)
  obtain r st1 where p: "pkg_name env st = (r, st1)" by (cases "pkg_name env st")
  have f: "attrs st1 ''__name'' = attrs st ''__name''"
    using pkg_name_attr [of env st] p by simp
  show ?case
    using p f Cons.IH
    by (simp add: Let_def case_prod_beta split: sum.splits option.splits list.splits)
qed

lemma bind_mounts_unset:
  "name_attr_unset st \<Longrightarrow> name_attr_unset (snd (bind_mounts env eps st))"
  by (simp add: name_attr_unset_def bind_mounts_attr)

lemma bind_mounts_ok:
  assumes "top_level (distribution_packages env) = [pkg]"
  shows "name_attr_unset st \<Longrightarrow> \<forall>e \<in> set eps. \<not> ambiguous pkg e \<Longrightarrow>
         fst (bind_mounts env eps st) = (concat (map yields (contributions pkg eps)), None)"
proof (induction eps arbitrary: st)
  case Nil
  show ?case by (simp add: contributions_def)
next
  case (Cons e eps)
  have p: "pkg_name env st = (Inr pkg, named pkg st)"
    using pkg_name_ok [OF Cons.prems(1) assms] .
  have u: "name_attr_unset (named pkg st)" using Cons.prems(1) by simp
  have u2: "name_attr_unset (named pkg st\<lparr>fs := d\<rparr>)" for d
    using Cons.prems(1) by (simp add: name_attr_unset_def named_def)
  have rest: "\<forall>e \<in> set eps. \<not> ambiguous pkg e" using Cons.prems(2) by simp
  have e: "\<not> ambiguous pkg e" using Cons.prems(2) by simp
  show ?case
    using e Cons.IH [OF u rest] Cons.IH [OF u2 rest]
    by (auto simp: p Let_def case_prod_beta contributions_def contributes_def ambiguous_def
        declared_def yields_def split: option.splits list.splits)
qed

lemma bind_mounts_ambiguous:
  assumes "top_level (distribution_packages env) = [pkg]"
  shows "name_attr_unset st \<Longrightarrow> find (ambiguous pkg) eps = Some e \<Longrightarrow>
         snd (fst (bind_mounts env eps st)) = Some (NotImplementedError_static_dirs (declared e))"
proof (induction eps arbitrary: st)
  case Nil
  then show ?case by simp
next
  case (Cons x eps)
  have p: "pkg_name env st = (Inr pkg, named pkg st)"
    using pkg_name_ok [OF Cons.prems(1) assms] .
  have u: "name_attr_unset (named pkg st)" using Cons.prems(1) by simp
  have u2: "name_attr_unset (named pkg st\<lparr>fs := d\<rparr>)" for d
    using Cons.prems(1) by (simp add: name_attr_unset_def named_def)
  show ?case
  proof (cases "ambiguous pkg x")
    case True
    then have "e = x" using Cons.prems(2) by simp
    then show ?thesis
      using True
      by (auto simp: p Let_def ambiguous_def contributes_def declared_def
          split: option.splits list.splits)
  next
    case False
    then have f: "find (ambiguous pkg) eps = Some e" using Cons.prems(2) by simp
    show ?thesis
      using False Cons.IH [OF u f] Cons.IH [OF u2 f]
      by (auto simp: p Let_def case_prod_beta ambiguous_def contributes_def declared_def
          split: option.splits list.splits)
  qed
qed

lemma bind_mounts_pkg_error:
  assumes "name_attr_unset st" and "length (top_level (distribution_packages env)) \<noteq> 1"
  shows "bind_mounts env eps st =
           (([], if eps = [] then None
                 else Some (NotImplementedError_pkg_name (top_level (distribution_packages env)))),
            st)"
  using pkg_name_error [OF assms] by (cases eps) simp_all


subsection \<open>Paths and the two loops\<close>

lemma split_on_not_Nil [simp]: "split_on c s \<noteq> []"
  by (induction s) (auto split: list.splits)

lemma split_on_absent: "c \<notin> set s \<Longrightarrow> split_on c s = [s]"
  by (induction s) auto

lemma split_on_append: "split_on c (a @ c # b) = split_on c a @ split_on c b"
  by (induction a) (auto split: list.splits)

lemma path_parts_valid: "valid_name n \<Longrightarrow> path_parts n = [n]"
  by (simp add: valid_name_def path_parts_def split_on_absent)

lemma path_parts_static:
  assumes "valid_name m"
  shows "path_parts (m @ ''/WebApp/static'') = [m, ''WebApp'', ''static'']"
proof -
  have "split_on CHR ''/'' (m @ CHR ''/'' # ''WebApp/static'')
          = split_on CHR ''/'' m @ split_on CHR ''/'' ''WebApp/static''"
    by (rule split_on_append)
  moreover have "split_on CHR ''/'' m = [m]"
    using assms by (simp add: valid_name_def split_on_absent)
  moreover have "split_on CHR ''/'' ''WebApp/static'' = [''WebApp'', ''static'']"
    by simp
  ultimately show ?thesis
    using assms by (simp add: path_parts_def valid_name_def)
qed

lemma docker_loop_eq:
  "docker_loop ys c = c @ map (\<lambda>y. ''-v='' @ bind_spec (binding_of y)) ys"
  by (induction ys c rule: docker_loop.induct) (simp_all add: bind_spec_def binding_of_def)

lemma singularity_loop_cmd:
  "fst (singularity_loop ys c st) = c @ map (\<lambda>y. ''--bind='' @ bind_spec (binding_of y)) ys"
  by (induction ys c st rule: singularity_loop.induct) (simp_all add: bind_spec_def binding_of_def)

lemma singularity_loop_frame:
  "attrs (snd (singularity_loop ys c st)) = attrs st
   \<and> probed (snd (singularity_loop ys c st)) = probed st
   \<and> spawned (snd (singularity_loop ys c st)) = spawned st
   \<and> fs (snd (singularity_loop ys c st)) = fs st"
  by (induction ys c st rule: singularity_loop.induct) (simp_all add: tmp_mkdir_parents_def)

lemma singularity_loop_tmpdir:
  "tmpdir st = Some d \<Longrightarrow>
   tmpdir (snd (singularity_loop ys c st))
     = Some (d \<union> (\<Union>y \<in> set ys. set (prefixes (path_parts (fst y)))))"
proof (induction ys c st arbitrary: d rule: singularity_loop.induct)
  case (1 c st)
  then show ?case by simp
next
  case (2 name p rest c st)
  have "tmpdir (tmp_mkdir_parents (path_parts name) st)
          = Some (d \<union> set (prefixes (path_parts name)))"
    using "2.prems" by (simp add: tmp_mkdir_parents_def mkdir_parents_def)
  from "2.IH" [OF this] show ?case by (simp add: Un_assoc)
qed


subsection \<open>The plan behind the docker arguments\<close>

lemma docker_args_render:
  "docker_args env st =
     (case mount_plan env st of (r, st') \<Rightarrow> (map_sum id (docker_render env) r, st'))"
  by (simp add: docker_args_def mount_plan_def docker_render_def docker_loop_eq identity_flag_def
      bindE_def returnE_def Let_def case_prod_beta binding_of_def bind_spec_def
      split: option.splits sum.splits prod.splits)

lemma mount_plan_ok:
  assumes pk: "top_level (distribution_packages env) = [pkg]"
    and un: "name_attr_unset st"
    and ok: "\<forall>e \<in> set (entry_points env). \<not> ambiguous pkg e"
  shows "fst (mount_plan env st) = Inr (plan_of env pkg)"
proof -
  obtain r st1 where b: "bind_mounts env (entry_points env) st = (r, st1)"
    by (cases "bind_mounts env (entry_points env) st")
  have r: "r = (concat (map yields (contributions pkg (entry_points env))), None)"
    using bind_mounts_ok [OF pk un ok] b by simp
  have u1: "name_attr_unset st1" using bind_mounts_unset [OF un, of env "entry_points env"] b by simp
  have p1: "pkg_name env st1 = (Inr pkg, named pkg st1)" using pkg_name_ok [OF u1 pk] .
  have p2: "pkg_name env (named pkg st1) = (Inr pkg, named pkg st1)"
    using pkg_name_ok [of "named pkg st1" env pkg] u1 pk by simp
  show ?thesis
    by (simp add: mount_plan_def b r p1 p2 bindE_def returnE_def plan_of_def self_binding_def
        binding_of_def case_prod_beta)
qed

lemma mount_plan_ambiguous:
  assumes pk: "top_level (distribution_packages env) = [pkg]"
    and un: "name_attr_unset st"
    and am: "find (ambiguous pkg) (entry_points env) = Some e"
  shows "fst (mount_plan env st) = Inl (NotImplementedError_static_dirs (declared e))"
  using bind_mounts_ambiguous [OF pk un am]
  by (simp add: mount_plan_def Let_def case_prod_beta)

lemma mount_plan_pkg_error:
  assumes un: "name_attr_unset st"
    and ne: "length (top_level (distribution_packages env)) \<noteq> 1"
  shows "fst (mount_plan env st)
           = Inl (NotImplementedError_pkg_name (top_level (distribution_packages env)))"
  using pkg_name_error [OF un ne]
  by (simp add: mount_plan_def bind_mounts_pkg_error [OF un ne] bindE_def)

lemma fst_docker_args:
  "fst (docker_args env st) = map_sum id (docker_render env) (fst (mount_plan env st))"
  by (simp add: docker_args_render case_prod_beta)


subsection \<open>The singularity arguments\<close>

lemma staged_avoids_pkg:
  assumes "valid_name (ep_module e)" and "ep_module e \<noteq> pkg" and "y \<in> set (yields e)"
  shows "[pkg] \<notin> set (prefixes (path_parts (fst y)))"
  using assms by (auto simp: yields_def path_parts_valid path_parts_static)

lemma tmp_mkdir_ok:
  assumes "tmpdir st = Some d" and "[] \<in> d" and "[n] \<notin> d"
  shows "tmp_mkdir [n] st = (Inr (), st\<lparr>tmpdir := Some (insert [n] d)\<rparr>)"
  using assms by (simp add: tmp_mkdir_def mkdir_def)

lemma singularity_args_ok:
  assumes pk: "top_level (distribution_packages env) = [pkg]"
    and un: "name_attr_unset st"
    and ok: "\<forall>e \<in> set (entry_points env). \<not> ambiguous pkg e"
    and vm: "\<forall>e \<in> set (entry_points env). valid_name (ep_module e)"
    and vp: "valid_name pkg"
  shows "fst (singularity_args env st) = Inr (singularity_render env (plan_of env pkg))"
proof -
  let ?st1 = "st\<lparr>tmpdir := Some {[]}\<rparr>"
  let ?ys = "concat (map yields (contributions pkg (entry_points env)))"
  let ?c1 = "[''run'', ''--writable'', ''--containall'', ''--bind='' @ str_path (mkdtemp env) @ '':/opt'']"
  have un1: "name_attr_unset ?st1" using un by (simp add: name_attr_unset_def)
  obtain r st2 where b: "bind_mounts env (entry_points env) ?st1 = (r, st2)"
    by (cases "bind_mounts env (entry_points env) ?st1")
  have r: "r = (?ys, None)"
    using bind_mounts_ok [OF pk un1 ok] b by simp
  have un2: "name_attr_unset st2"
    using bind_mounts_unset [OF un1, of env "entry_points env"] b by simp
  have t2: "tmpdir st2 = Some {[]}"
    using bind_mounts_frame [of env "entry_points env" ?st1] b by simp
  let ?d = "{[]} \<union> (\<Union>y \<in> set ?ys. set (prefixes (path_parts (fst y))))"
  have fresh: "[pkg] \<notin> ?d"
  proof -
    have "[pkg] \<notin> set (prefixes (path_parts (fst y)))" if "y \<in> set ?ys" for y
    proof -
      from that obtain e where e: "e \<in> set (entry_points env)" "contributes pkg e" "y \<in> set (yields e)"
        by (auto simp: contributions_def)
      show ?thesis
        using staged_avoids_pkg [of e pkg y] e vm by (simp add: contributes_def)
    qed
    then show ?thesis by auto
  qed
  have tail: "fst (bindE (pkg_name env) (\<lambda>n0. bindE (tmp_mkdir (path_parts n0)) (\<lambda>_.
                bindE (pkg_name env) (\<lambda>n1. bindE (pkg_name env) (\<lambda>n2. returnE (f n1 n2)))))
                (snd (singularity_loop ?ys c st2)))
              = Inr (f pkg pkg)" for c and f :: "string \<Rightarrow> string \<Rightarrow> string list"
  proof -
    let ?st3 = "snd (singularity_loop ?ys c st2)"
    have un3: "name_attr_unset ?st3"
      using singularity_loop_frame [of ?ys c st2] un2 by (simp add: name_attr_unset_def)
    have t3: "tmpdir ?st3 = Some ?d"
      using singularity_loop_tmpdir [OF t2, of ?ys c] by simp
    obtain s4 where p1: "pkg_name env ?st3 = (Inr pkg, s4)"
      and un4: "name_attr_unset s4" and t4: "tmpdir s4 = Some ?d"
      using pkg_name_ok [OF un3 pk] un3 t3 by (simp add: named_def name_attr_unset_def)
    obtain s5 where m: "tmp_mkdir (path_parts pkg) s4 = (Inr (), s5)"
      and un5: "name_attr_unset s5"
      using tmp_mkdir_ok [OF t4 _ fresh] un4
      by (simp add: path_parts_valid [OF vp] name_attr_unset_def)
    obtain s6 where p2: "pkg_name env s5 = (Inr pkg, s6)" and un6: "name_attr_unset s6"
      using pkg_name_ok [OF un5 pk] un5 by (simp add: named_def name_attr_unset_def)
    obtain s7 where p3: "pkg_name env s6 = (Inr pkg, s7)"
      using pkg_name_ok [OF un6 pk] by simp
    show ?thesis
      by (simp add: bindE_def returnE_def p1 m p2 p3)
  qed
  show ?thesis
    by (simp add: singularity_args_def Let_def b r case_prod_beta tail singularity_loop_cmd
        singularity_render_def plan_of_def staging_bind_def self_binding_def bind_spec_def)
qed

lemma singularity_args_ambiguous:
  assumes pk: "top_level (distribution_packages env) = [pkg]"
    and un: "name_attr_unset st"
    and am: "find (ambiguous pkg) (entry_points env) = Some e"
  shows "fst (singularity_args env st) = Inl (NotImplementedError_static_dirs (declared e))"
proof -
  have un1: "name_attr_unset (st\<lparr>tmpdir := Some {[]}\<rparr>)" using un by (simp add: name_attr_unset_def)
  show ?thesis
    using bind_mounts_ambiguous [OF pk un1 am]
    by (simp add: singularity_args_def Let_def case_prod_beta)
qed

lemma singularity_args_pkg_error:
  assumes un: "name_attr_unset st"
    and ne: "length (top_level (distribution_packages env)) \<noteq> 1"
  shows "fst (singularity_args env st)
           = Inl (NotImplementedError_pkg_name (top_level (distribution_packages env)))"
proof -
  have un1: "name_attr_unset (st\<lparr>tmpdir := Some {[]}\<rparr>)" using un by (simp add: name_attr_unset_def)
  show ?thesis
    using pkg_name_error [OF un1 ne]
    by (simp add: singularity_args_def bind_mounts_pkg_error [OF un1 ne] bindE_def Let_def)
qed


subsection \<open>The staging directory and the choice of the backend\<close>

lemma bindE_keeps_tmpdir:
  assumes "\<And>s. tmpdir s \<noteq> None \<Longrightarrow> tmpdir (snd (f s)) \<noteq> None"
    and "\<And>x s. tmpdir s \<noteq> None \<Longrightarrow> tmpdir (snd (g x s)) \<noteq> None"
    and "tmpdir st \<noteq> None"
  shows "tmpdir (snd (bindE f g st)) \<noteq> None"
proof (cases "f st")
  case (Pair r s1)
  have "tmpdir s1 \<noteq> None" using assms(1) [OF assms(3)] Pair by simp
  then show ?thesis
    using assms(2) Pair by (cases r) (simp_all add: bindE_def)
qed

lemma pkg_name_keeps_tmpdir: "tmpdir s \<noteq> None \<Longrightarrow> tmpdir (snd (pkg_name env s)) \<noteq> None"
  by (simp add: pkg_name_frame)

lemma tmp_mkdir_keeps_tmpdir: "tmpdir s \<noteq> None \<Longrightarrow> tmpdir (snd (tmp_mkdir p s)) \<noteq> None"
  by (auto simp: tmp_mkdir_def split: option.splits sum.splits)

lemma returnE_keeps_tmpdir: "tmpdir s \<noteq> None \<Longrightarrow> tmpdir (snd (returnE x s)) \<noteq> None"
  by (simp add: returnE_def)

lemma singularity_loop_keeps_tmpdir:
  "tmpdir s \<noteq> None \<Longrightarrow> tmpdir (snd (singularity_loop ys c s)) \<noteq> None"
  by (induction ys c s rule: singularity_loop.induct) (simp_all add: tmp_mkdir_parents_def)

lemma singularity_args_tmpdir: "tmpdir (snd (singularity_args env st)) \<noteq> None"
proof -
  let ?st1 = "st\<lparr>tmpdir := Some {[]}\<rparr>"
  let ?b = "bind_mounts env (entry_points env) ?st1"
  have t2: "tmpdir (snd ?b) \<noteq> None"
    using bind_mounts_frame [of env "entry_points env" ?st1] by simp
  have t3: "tmpdir (snd (singularity_loop (fst (fst ?b)) c (snd ?b))) \<noteq> None" for c
    using singularity_loop_keeps_tmpdir [OF t2] .
  have tail: "tmpdir (snd (bindE (pkg_name env) (\<lambda>n0. bindE (tmp_mkdir (path_parts n0)) (\<lambda>_.
                bindE (pkg_name env) (\<lambda>n1. bindE (pkg_name env) (\<lambda>n2. returnE (f n1 n2))))) s))
              \<noteq> None" if "tmpdir s \<noteq> None" for s and f :: "string \<Rightarrow> string \<Rightarrow> string list"
    by (intro bindE_keeps_tmpdir pkg_name_keeps_tmpdir tmp_mkdir_keeps_tmpdir
        returnE_keeps_tmpdir that)
  show ?thesis
    using t3 tail [OF t3]
    by (simp add: singularity_args_def Let_def case_prod_beta split: option.splits)
qed

lemma find_exe_available:
  "find_exe env available_exes st =
     (case which env ''docker'' of
        Some full \<Rightarrow> (Some (''docker'', full),
                       st\<lparr>attrs := (attrs st)(''_exe'' \<mapsto> ''docker''), probed := probed st @ [''docker'']\<rparr>)
      | None \<Rightarrow>
         (case which env ''singularity'' of
            Some full \<Rightarrow> (Some (''singularity'', full),
                           st\<lparr>attrs := (attrs st)(''_exe'' \<mapsto> ''singularity''),
                              probed := probed st @ [''docker'', ''singularity'']\<rparr>)
          | None \<Rightarrow> (None, st\<lparr>attrs := (attrs st)(''_exe'' \<mapsto> ''singularity''),
                              probed := probed st @ [''docker'', ''singularity'']\<rparr>)))"
  by (simp add: available_exes_def split: option.splits)

lemma find_exe_first:
  "fst (find_exe env exes st) =
     map_option (\<lambda>exe. (exe, the (which env exe))) (find (\<lambda>exe. which env exe \<noteq> None) exes)"
  by (induction exes arbitrary: st) (auto simp: Let_def split: option.splits)

lemma cmd_tmpdir_singularity:
  assumes "which env ''docker'' = None" and "which env ''singularity'' = Some full"
  shows "tmpdir (snd (cmd env st)) \<noteq> None"
proof -
  have "tmpdir (snd (bindE (singularity_args env) (\<lambda>args. bindE (pkg_name env) (\<lambda>n. returnE (f args n))) s))
          \<noteq> None" for s and f :: "string list \<Rightarrow> string \<Rightarrow> string list"
  proof (cases "singularity_args env s")
    case (Pair r s1)
    have "tmpdir s1 \<noteq> None" using singularity_args_tmpdir [of env s] Pair by simp
    then show ?thesis
      using Pair pkg_name_frame [of env s1]
      by (cases r) (simp_all add: bindE_def returnE_def case_prod_beta split: sum.splits)
  qed
  then show ?thesis
    using assms by (simp add: cmd_def find_exe_available getattr_args_def)
qed

lemma check_call_frame: "tmpdir (snd (check_call env c s)) = tmpdir s"
  by (simp add: check_call_def Let_def)


subsection \<open>Evaluating the examples\<close>

lemmas model_defs =
  run_def check_call_def cmd_def getattr_args_def available_exes_def
  singularity_args_def docker_args_def tmp_mkdir_def tmp_mkdir_parents_def mkdir_def
  mkdir_parents_def pkg_name_def return_name_def path_def docker_image_def
  bindE_def returnE_def raiseE_def
  str_path_def parent_def path_parts_def digit_def str_nat.simps
  mount_plan_def

lemmas example_defs =
  env_docker_def env_singularity_def env_none_def env_killed_def env_skip_def env_two_def
  env_singularity_killed_def env_singularity_two_def plugin_two_def pluginA_def new_command_def docker_args_example_def singularity_args_example_def
  cmd_example_def

lemma docker_args_env_docker:
  "fst (docker_args env_docker new_command) = Inr docker_args_example"
  by (simp add: model_defs example_defs Let_def)

lemma singularity_args_env_singularity:
  "fst (singularity_args env_singularity new_command) = Inr singularity_args_example"
  by (simp add: model_defs example_defs Let_def)

lemma cmd_env_killed: "fst (cmd env_killed new_command) = Inr cmd_example"
  by (simp add: model_defs example_defs Let_def)

lemma run_env_singularity: "fst (run env_singularity new_command) = Inr ()"
  by (simp add: model_defs example_defs Let_def)

lemma run_env_docker: "fst (run env_docker new_command) = Inr ()"
  by (simp add: model_defs example_defs Let_def)

lemma cmd_env_docker: "fst (cmd env_docker new_command) = Inr cmd_example"
  by (simp add: model_defs example_defs Let_def)

lemma run_env_singularity_killed:
  "fst (run env_singularity_killed new_command)
     = Inl (CalledProcessError 137
         ([''/usr/bin/singularity''] @ singularity_args_example
            @ [''-D=/opt'', ''-n=mypkg'', ''--py3-style'']))"
  by (simp add: model_defs example_defs Let_def)

lemma run_env_singularity_two:
  "fst (run env_singularity_two new_command)
     = Inl (NotImplementedError_static_dirs [''/s1'', ''/s2''])"
  by (simp add: model_defs example_defs Let_def)

subsection \<open>The step runner\<close>

lemma run_tmpdir_singularity:
  assumes "''DIRAC_WEBAPP_NO_COMPILE'' \<notin> dom (environ env)"
    and "which env ''docker'' = None" and "which env ''singularity'' = Some full"
  shows "tmpdir (snd (run env st)) \<noteq> None"
proof (cases "cmd env st")
  case (Pair r s1)
  have "tmpdir s1 \<noteq> None"
    using cmd_tmpdir_singularity [OF assms(2,3), of st] Pair by simp
  then show ?thesis
    using assms(1) Pair by (cases r) (simp_all add: run_def bindE_def check_call_frame domIff)
qed

text \<open>
  C7. When the variable \<open>DIRAC_WEBAPP_NO_COMPILE\<close> is set in the environment, \<open>run\<close>
  returns normally and leaves the whole state as it was: no attribute of the command
  object is written, no executable is looked up, no directory is created on the host
  or in a staging directory, and no child process is started.
\<close>

theorem skip_flag_no_effects:
  "''DIRAC_WEBAPP_NO_COMPILE'' \<in> dom (environ env) \<Longrightarrow> run env st = (Inr (), st)"
  by (auto simp: run_def)

theorem skip_flag_no_effects_witness:
  "''DIRAC_WEBAPP_NO_COMPILE'' \<in> dom (environ env_skip)
   \<and> run env_skip new_command = (Inr (), new_command)"
  using skip_flag_no_effects [of env_skip new_command] by (simp add: env_skip_def)

text \<open>
  C8. When the skip variable is not set and the command line \<open>c\<close> has been put
  together, \<open>run\<close> executes \<open>c\<close>; it returns normally when the child returns 0 and
  otherwise raises \<open>CalledProcessError\<close> with the return code of the child, unchanged.
\<close>

theorem child_exit_code_reported:
  assumes "''DIRAC_WEBAPP_NO_COMPILE'' \<notin> dom (environ env)"
    and "fst (cmd env st) = Inr c"
  shows "fst (run env st)
           = (if returncode env c = 0 then Inr ()
              else Inl (CalledProcessError (returncode env c) c))
         \<and> spawned (snd (run env st)) = spawned (snd (cmd env st)) @ [c]"
  using assms
  by (cases "cmd env st") (simp add: run_def bindE_def check_call_def Let_def domIff)

theorem child_exit_code_reported_witness:
  "''DIRAC_WEBAPP_NO_COMPILE'' \<notin> dom (environ env_killed)
   \<and> fst (cmd env_killed new_command) = Inr cmd_example
   \<and> returncode env_killed cmd_example = 137
   \<and> fst (run env_killed new_command) = Inl (CalledProcessError 137 cmd_example)
   \<and> ''DIRAC_WEBAPP_NO_COMPILE'' \<notin> dom (environ env_docker)
   \<and> fst (cmd env_docker new_command) = Inr cmd_example
   \<and> returncode env_docker cmd_example = 0
   \<and> fst (run env_docker new_command) = Inr ()"
proof -
  have f: "''DIRAC_WEBAPP_NO_COMPILE'' \<notin> dom (environ env_killed)"
    "''DIRAC_WEBAPP_NO_COMPILE'' \<notin> dom (environ env_docker)"
    by (simp_all add: env_killed_def env_docker_def)
  have r: "returncode env_killed cmd_example = 137" "returncode env_docker cmd_example = 0"
    by (simp_all add: env_killed_def env_docker_def)
  show ?thesis
    using child_exit_code_reported [OF f(1) cmd_env_killed]
      child_exit_code_reported [OF f(2) cmd_env_docker] f r cmd_env_killed cmd_env_docker
    by simp
qed

text \<open>
  C4. The loop of \<open>_cmd\<close> tries \<open>docker\<close> and then \<open>singularity\<close> and selects the
  first one that \<open>shutil.which\<close> resolves, with the path it resolved to. When neither
  resolves, \<open>_cmd\<close> raises the error for a missing command, and no command line exists
  and none is executed. A command line that \<open>_cmd\<close> returns starts with the resolved
  path of the first candidate that resolves.
\<close>

theorem backend_selection:
  "fst (find_exe env available_exes st)
     = map_option (\<lambda>exe. (exe, the (which env exe)))
         (find (\<lambda>exe. which env exe \<noteq> None) [''docker'', ''singularity''])
   \<and> (which env ''docker'' = None \<and> which env ''singularity'' = None \<longrightarrow>
        fst (cmd env st) = Inl NotImplementedError_no_command
        \<and> spawned (snd (cmd env st)) = spawned st)
   \<and> (\<forall>c. fst (cmd env st) = Inr c \<longrightarrow>
        (\<exists>exe. find (\<lambda>exe. which env exe \<noteq> None) [''docker'', ''singularity''] = Some exe
               \<and> which env exe = Some (hd c)))"
proof (intro conjI impI allI)
  show "fst (find_exe env available_exes st)
          = map_option (\<lambda>exe. (exe, the (which env exe)))
              (find (\<lambda>exe. which env exe \<noteq> None) [''docker'', ''singularity''])"
    by (simp only: find_exe_first available_exes_def)
next
  assume "which env ''docker'' = None \<and> which env ''singularity'' = None"
  then show "fst (cmd env st) = Inl NotImplementedError_no_command"
    and "spawned (snd (cmd env st)) = spawned st"
    by (simp_all add: cmd_def find_exe_available)
next
  fix c
  assume c: "fst (cmd env st) = Inr c"
  show "\<exists>exe. find (\<lambda>exe. which env exe \<noteq> None) [''docker'', ''singularity''] = Some exe
              \<and> which env exe = Some (hd c)"
  proof (cases "find_exe env available_exes st")
    case (Pair sel s1)
    show ?thesis
    proof (cases sel)
      case None
      then show ?thesis using c Pair by (simp add: cmd_def)
    next
      case (Some p)
      obtain exe full where p: "p = (exe, full)" by (cases p)
      have "hd c = full"
        using c Pair Some p
        by (auto simp: cmd_def bindE_def returnE_def split: sum.splits prod.splits)
      moreover have "find (\<lambda>exe. which env exe \<noteq> None) [''docker'', ''singularity''] = Some exe
                     \<and> which env exe = Some full"
        using find_exe_first [of env available_exes st] Pair Some p
        by (auto simp: available_exes_def split: if_splits)
      ultimately show ?thesis by simp
    qed
  qed
qed

theorem backend_selection_witness:
  "which env_none ''docker'' = None \<and> which env_none ''singularity'' = None
   \<and> fst (cmd env_none new_command) = Inl NotImplementedError_no_command
   \<and> fst (find_exe env_docker available_exes new_command) = Some (''docker'', ''/usr/bin/docker'')
   \<and> fst (find_exe env_singularity available_exes new_command)
       = Some (''singularity'', ''/usr/bin/singularity'')"
  using backend_selection [of env_none new_command] backend_selection [of env_docker new_command]
    backend_selection [of env_singularity new_command]
  by (simp add: env_none_def env_docker_def env_singularity_def)

text \<open>
  C6, as the code has it. \<open>_singularity_args\<close> creates the staging directory and
  stores the \<open>TemporaryDirectory\<close> object in \<open>self._tmpdir\<close>. Neither it nor \<open>_cmd\<close> nor
  \<open>run\<close> removes the directory, on any path: when singularity is the selected
  backend, the staging directory exists after \<open>run\<close>, whether \<open>run\<close> returned or
  raised.
\<close>

theorem staging_directory_outlives_run:
  assumes "''DIRAC_WEBAPP_NO_COMPILE'' \<notin> dom (environ env)"
    and "which env ''docker'' = None" and "which env ''singularity'' = Some full"
  shows "tmpdir (snd (run env st)) \<noteq> None"
  using assms by (rule run_tmpdir_singularity)

theorem staging_directory_outlives_run_witness:
  "''DIRAC_WEBAPP_NO_COMPILE'' \<notin> dom (environ env_singularity)
   \<and> which env_singularity ''docker'' = None
   \<and> which env_singularity ''singularity'' = Some ''/usr/bin/singularity''
   \<and> tmpdir (snd (run env_singularity new_command)) \<noteq> None"
  using staging_directory_outlives_run [of env_singularity "''/usr/bin/singularity''" new_command]
  by (simp add: env_singularity_def env_docker_def)

text \<open>
  The claim C6 itself fails, on each of its paths. With singularity alone, the staging
  directory is still there after \<open>run\<close> succeeded, after the child returned 137, and
  after discovery raised for a plugin with two static directories.
\<close>

theorem staging_directory_removed_counterexample:
  "fst (run env_singularity new_command) = Inr ()
   \<and> tmpdir (snd (run env_singularity new_command)) \<noteq> None
   \<and> fst (run env_singularity_killed new_command)
       = Inl (CalledProcessError 137
           ([''/usr/bin/singularity''] @ singularity_args_example
              @ [''-D=/opt'', ''-n=mypkg'', ''--py3-style'']))
   \<and> tmpdir (snd (run env_singularity_killed new_command)) \<noteq> None
   \<and> fst (run env_singularity_two new_command)
       = Inl (NotImplementedError_static_dirs [''/s1'', ''/s2''])
   \<and> tmpdir (snd (run env_singularity_two new_command)) \<noteq> None"
proof -
  have "tmpdir (snd (run env_singularity new_command)) \<noteq> None"
    by (rule run_tmpdir_singularity [where full = "''/usr/bin/singularity''"])
      (simp_all add: env_singularity_def env_docker_def)
  moreover have "tmpdir (snd (run env_singularity_killed new_command)) \<noteq> None"
    by (rule run_tmpdir_singularity [where full = "''/usr/bin/singularity''"])
      (simp_all add: env_singularity_killed_def env_singularity_def env_docker_def)
  moreover have "tmpdir (snd (run env_singularity_two new_command)) \<noteq> None"
    by (rule run_tmpdir_singularity [where full = "''/usr/bin/singularity''"])
      (simp_all add: env_singularity_two_def env_singularity_def env_docker_def)
  ultimately show ?thesis
    using run_env_singularity run_env_singularity_killed run_env_singularity_two by simp
qed

subsection \<open>The mount plan and the argument vectors\<close>

lemma no_ambiguous:
  "find (ambiguous pkg) eps = None \<Longrightarrow> \<forall>e \<in> set eps. \<not> ambiguous pkg e"
  by (simp add: find_None_iff)

lemma ambiguous_iff:
  "ambiguous pkg e \<longleftrightarrow> ep_module e \<noteq> pkg \<and> 2 \<le> length (declared e)"
proof (cases "declared e")
  case Nil
  then show ?thesis by (simp add: ambiguous_def contributes_def)
next
  case (Cons d ds)
  then show ?thesis by (cases ds) (simp_all add: ambiguous_def contributes_def)
qed

lemma plan_of_paths:
  "map container_path (plan_of env pkg)
     = concat (map (\<lambda>e. [ep_module e, ep_module e @ ''/WebApp/static''])
                 (contributions pkg (entry_points env))) @ [pkg]"
  by (simp add: plan_of_def self_binding_def binding_of_def yields_def map_concat comp_def)

lemma length_plan_of:
  "length (plan_of env pkg) = 2 * length (contributions pkg (entry_points env)) + 1"
  by (simp add: plan_of_def yields_def length_concat comp_def sum_list_triv)

lemma static_path_not_name: "CHR ''/'' \<notin> set n \<Longrightarrow> n \<noteq> m @ ''/WebApp/static''"
  by auto

lemma module_paths_distinct:
  assumes "distinct (map ep_module cs)"
    and "\<forall>e \<in> set cs. CHR ''/'' \<notin> set (ep_module e)"
  shows "distinct (concat (map (\<lambda>e. [ep_module e, ep_module e @ ''/WebApp/static'']) cs))"
  using assms
proof (induction cs)
  case Nil
  show ?case by simp
next
  case (Cons e cs)
  have a: "ep_module e \<noteq> ep_module x" "ep_module e \<noteq> ep_module x @ ''/WebApp/static''"
    "ep_module e @ ''/WebApp/static'' \<noteq> ep_module x" if "x \<in> set cs" for x
    using that Cons.prems static_path_not_name [of "ep_module e" "ep_module x"]
      static_path_not_name [of "ep_module x" "ep_module e"] by auto
  have "distinct (concat (map (\<lambda>e. [ep_module e, ep_module e @ ''/WebApp/static'']) cs))"
    using Cons by simp
  then show ?case using a by auto
qed

lemma plan_of_distinct:
  assumes "distinct (map ep_module (contributions pkg (entry_points env)))"
    and "list_all valid_name (map ep_module (entry_points env))"
    and "valid_name pkg"
  shows "distinct (map container_path (plan_of env pkg))"
proof -
  let ?cs = "contributions pkg (entry_points env)"
  have v: "\<forall>e \<in> set ?cs. CHR ''/'' \<notin> set (ep_module e)"
    using assms(2) by (auto simp: list_all_iff contributions_def valid_name_def)
  have d: "distinct (concat (map (\<lambda>e. [ep_module e, ep_module e @ ''/WebApp/static'']) ?cs))"
    using module_paths_distinct [OF assms(1) v] .
  have "pkg \<noteq> ep_module e \<and> pkg \<noteq> ep_module e @ ''/WebApp/static''" if "e \<in> set ?cs" for e
    using that assms(3) static_path_not_name [of pkg "ep_module e"]
    by (auto simp: contributions_def contributes_def valid_name_def)
  then show ?thesis using d by (auto simp: plan_of_paths)
qed

lemma docker_binds_render: "docker_binds (docker_render env plan) = map bind_spec plan"
proof -
  have "filter (\<lambda>a. take 3 a = ''-v='') (map (\<lambda>b. ''-v='' @ bind_spec b) plan)
          = map (\<lambda>b. ''-v='' @ bind_spec b) plan"
    by (induction plan) simp_all
  then show ?thesis
    by (simp add: docker_binds_def docker_render_def identity_flag_def docker_image_def comp_def)
qed

lemma singularity_binds_render:
  "singularity_binds (singularity_render env plan) = staging_bind env # map bind_spec plan"
proof -
  have "filter (\<lambda>a. take 7 a = ''--bind='') (map (\<lambda>b. ''--bind='' @ bind_spec b) plan)
          = map (\<lambda>b. ''--bind='' @ bind_spec b) plan"
    by (induction plan) simp_all
  then show ?thesis
    by (simp add: singularity_binds_def singularity_render_def docker_image_def comp_def)
qed

lemma no_identity_flag_singularity:
  "filter (\<lambda>a. take 3 a = ''-u='') (singularity_render env plan) = []"
  by (simp add: singularity_render_def docker_image_def filter_empty_conv)


subsection \<open>The claims about the mount plan\<close>

lemma mount_plan_env_docker: "fst (mount_plan env_docker new_command) = Inr mount_plan_example"
  by (simp add: model_defs example_defs mount_plan_example_def Let_def)

lemma env_docker_facts:
  "top_level (distribution_packages env_docker) = [''mypkg'']"
  "name_attr_unset new_command"
  "find (ambiguous ''mypkg'') (entry_points env_docker) = None"
  "list_all valid_name (map ep_module (entry_points env_docker))"
  "valid_name ''mypkg''"
  "distinct (map ep_module (contributions ''mypkg'' (entry_points env_docker)))"
  by (simp_all add: example_defs top_level_def name_attr_unset_def ambiguous_def contributes_def
      declared_def valid_name_def contributions_def)

text \<open>
  C1, as the code has it. When the package name resolves to \<open>pkg\<close> and no
  contributing entry point declares more than one static directory, the mount plan
  holds two read-only bindings per contributing entry point, in discovery order: the
  directory of the plugin's module at \<open><module>\<close> and the declared static directory
  at \<open><module>/WebApp/static\<close>; after them it holds the read-write binding of
  \<open><cwd>/src/<pkg>\<close> at \<open><pkg>\<close>, and nothing else. The \<open>-v\<close> flags of the docker
  argument vector are these bindings.
\<close>

theorem mount_plan_bindings:
  assumes "top_level (distribution_packages env) = [pkg]"
    and "name_attr_unset st"
    and "find (ambiguous pkg) (entry_points env) = None"
  shows "fst (mount_plan env st)
           = Inr (map binding_of (concat (map yields (contributions pkg (entry_points env))))
                  @ [self_binding env pkg])
         \<and> (\<exists>dargs. fst (docker_args env st) = Inr dargs
               \<and> docker_binds dargs
                   = map bind_spec
                       (map binding_of
                          (concat (map yields (contributions pkg (entry_points env))))
                        @ [self_binding env pkg]))
         \<and> length (map binding_of (concat (map yields (contributions pkg (entry_points env))))
                   @ [self_binding env pkg])
             = 2 * length (contributions pkg (entry_points env)) + 1"
proof -
  have m: "fst (mount_plan env st) = Inr (plan_of env pkg)"
    using mount_plan_ok [OF assms(1,2) no_ambiguous [OF assms(3)]] .
  have "fst (docker_args env st) = Inr (docker_render env (plan_of env pkg))"
    by (simp add: fst_docker_args m)
  then show ?thesis
    using m length_plan_of [of env pkg] docker_binds_render [of env "plan_of env pkg"]
    by (simp add: plan_of_def)
qed

theorem mount_plan_bindings_witness:
  "top_level (distribution_packages env_docker) = [''mypkg'']
   \<and> name_attr_unset new_command
   \<and> find (ambiguous ''mypkg'') (entry_points env_docker) = None
   \<and> fst (mount_plan env_docker new_command) = Inr mount_plan_example
   \<and> length mount_plan_example = 2 * length (contributions ''mypkg'' (entry_points env_docker)) + 1"
  using mount_plan_bindings [OF env_docker_facts(1,2,3)] env_docker_facts(1,2,3)
    mount_plan_env_docker
  by (simp add: mount_plan_example_def contributions_def contributes_def declared_def
      pluginA_def env_docker_def)

text \<open>
  The claim C1 itself fails on the example of the specification: the plan of the code
  has three bindings, the one the claim describes has two; the binding of
  \<open>/site/pluginA\<close> at \<open>pluginA\<close> is not in it.
\<close>

theorem one_binding_per_contribution_counterexample:
  "fst (mount_plan env_docker new_command) = Inr mount_plan_example
   \<and> mount_plan_example \<noteq> mount_plan_spec env_docker ''mypkg''
   \<and> length mount_plan_example = 3
   \<and> length (mount_plan_spec env_docker ''mypkg'') = 2
   \<and> fst (docker_args env_docker new_command) = Inr docker_args_example
   \<and> docker_binds docker_args_example
       = [''/site/pluginA:/opt/pluginA:ro'',
          ''/host/a/static:/opt/pluginA/WebApp/static:ro'',
          ''/repo/src/mypkg:/opt/mypkg'']"
  using mount_plan_env_docker docker_args_env_docker
  by (simp add: mount_plan_example_def mount_plan_spec_def example_defs contributions_def
      contributes_def declared_def self_binding_def path_def docker_binds_def)

text \<open>
  C9. When the package name resolves to \<open>pkg\<close>, no contributing entry point declares
  more than one static directory, the module names and the package name are single
  path components, and the contributing entry points have pairwise distinct module
  names, then the mount plan exists and its container paths, the one of the package
  included, are pairwise distinct.
\<close>

theorem container_paths_unique:
  assumes "top_level (distribution_packages env) = [pkg]"
    and "name_attr_unset st"
    and "find (ambiguous pkg) (entry_points env) = None"
    and "list_all valid_name (map ep_module (entry_points env))"
    and "valid_name pkg"
    and "distinct (map ep_module (contributions pkg (entry_points env)))"
  shows "\<exists>plan. fst (mount_plan env st) = Inr plan \<and> distinct (map container_path plan)"
  using mount_plan_ok [OF assms(1,2) no_ambiguous [OF assms(3)]]
    plan_of_distinct [OF assms(6,4,5)]
  by simp

theorem container_paths_unique_witness:
  "top_level (distribution_packages env_docker) = [''mypkg'']
   \<and> name_attr_unset new_command
   \<and> find (ambiguous ''mypkg'') (entry_points env_docker) = None
   \<and> list_all valid_name (map ep_module (entry_points env_docker))
   \<and> valid_name ''mypkg''
   \<and> distinct (map ep_module (contributions ''mypkg'' (entry_points env_docker)))
   \<and> (\<exists>plan. fst (mount_plan env_docker new_command) = Inr plan
          \<and> distinct (map container_path plan))"
  using container_paths_unique [OF env_docker_facts] env_docker_facts by simp


subsection \<open>The claims about the two backends\<close>

lemma docker_args_ok:
  assumes "top_level (distribution_packages env) = [pkg]"
    and "name_attr_unset st"
    and "find (ambiguous pkg) (entry_points env) = None"
  shows "fst (docker_args env st) = Inr (docker_render env (plan_of env pkg))"
  using mount_plan_ok [OF assms(1,2) no_ambiguous [OF assms(3)]] by (simp add: fst_docker_args)

lemma singularity_args_succeeds:
  assumes "top_level (distribution_packages env) = [pkg]"
    and "name_attr_unset st"
    and "find (ambiguous pkg) (entry_points env) = None"
    and "list_all valid_name (map ep_module (entry_points env))"
    and "valid_name pkg"
  shows "fst (singularity_args env st) = Inr (singularity_render env (plan_of env pkg))"
  using singularity_args_ok [OF assms(1,2) no_ambiguous [OF assms(3)] _ assms(5)] assms(4)
  by (simp add: list_all_iff)

text \<open>
  C2. For a command object without an attribute \<open>__name\<close>, and module and package
  names that are single path components: when \<open>_docker_args\<close> raises,
  \<open>_singularity_args\<close> raises the same error; when \<open>_docker_args\<close> returns an argument
  vector, \<open>_singularity_args\<close> returns one too, and the logical binds of the two
  vectors are the same list of texts \<open>host:/opt/container[:ro]\<close>, namely the bindings
  of the mount plan in order: the same container paths, bound to the same host paths,
  read-only in the one exactly when in the other. The bind of the staging directory at
  \<open>/opt\<close>, which only the singularity vector has, is not a binding of the plan.
\<close>

theorem backends_bind_the_same_mounts:
  assumes un: "name_attr_unset st"
    and vm: "list_all valid_name (map ep_module (entry_points env))"
    and vp: "list_all valid_name (top_level (distribution_packages env))"
  shows "case fst (docker_args env st) of
           Inl e \<Rightarrow> fst (singularity_args env st) = Inl e
         | Inr dargs \<Rightarrow>
             (\<exists>sargs plan. fst (singularity_args env st) = Inr sargs
                \<and> fst (mount_plan env st) = Inr plan
                \<and> logical_binds_docker dargs = map bind_spec plan
                \<and> logical_binds_singularity env sargs = map bind_spec plan)"
proof (cases "length (top_level (distribution_packages env)) = 1")
  case False
  show ?thesis
    using mount_plan_pkg_error [OF un False] singularity_args_pkg_error [OF un False]
    by (simp add: fst_docker_args)
next
  case True
  then obtain pkg where pk: "top_level (distribution_packages env) = [pkg]"
    by (cases "top_level (distribution_packages env)") simp_all
  have vpkg: "valid_name pkg" using vp pk by simp
  show ?thesis
  proof (cases "find (ambiguous pkg) (entry_points env)")
    case (Some e)
    show ?thesis
      using mount_plan_ambiguous [OF pk un Some] singularity_args_ambiguous [OF pk un Some]
      by (simp add: fst_docker_args)
  next
    case None
    have d: "fst (docker_args env st) = Inr (docker_render env (plan_of env pkg))"
      using docker_args_ok [OF pk un None] .
    have s: "fst (singularity_args env st) = Inr (singularity_render env (plan_of env pkg))"
      using singularity_args_succeeds [OF pk un None vm vpkg] .
    have m: "fst (mount_plan env st) = Inr (plan_of env pkg)"
      using mount_plan_ok [OF pk un no_ambiguous [OF None]] .
    show ?thesis
      by (simp add: d s m logical_binds_docker_def logical_binds_singularity_def
          docker_binds_render singularity_binds_render)
  qed
qed

theorem backends_bind_the_same_mounts_witness:
  "name_attr_unset new_command
   \<and> list_all valid_name (map ep_module (entry_points env_docker))
   \<and> list_all valid_name (top_level (distribution_packages env_docker))
   \<and> fst (docker_args env_docker new_command) = Inr docker_args_example
   \<and> (\<exists>sargs plan. fst (singularity_args env_docker new_command) = Inr sargs
          \<and> fst (mount_plan env_docker new_command) = Inr plan
          \<and> logical_binds_docker docker_args_example = map bind_spec plan
          \<and> logical_binds_singularity env_docker sargs = map bind_spec plan)"
proof -
  have v: "list_all valid_name (top_level (distribution_packages env_docker))"
    by (simp add: env_docker_facts(1,5))
  show ?thesis
    using backends_bind_the_same_mounts [OF env_docker_facts(2,4) v] env_docker_facts(2,4) v
      docker_args_env_docker
    by simp
qed

text \<open>
  C5, as the code has it. When both argument vectors exist, both end with the image
  reference followed by \<open>/dirac-webapp-compile.py\<close>. The docker vector names the image
  as it is and has \<open>-w=/tmp\<close> and the identity flag \<open>-u=<uid>:<gid>\<close> before it; the
  singularity vector names the image as \<open>docker://<image>\<close> and has no argument
  starting with \<open>-u=\<close>.
\<close>

theorem trailing_arguments:
  assumes "top_level (distribution_packages env) = [pkg]"
    and "name_attr_unset st"
    and "find (ambiguous pkg) (entry_points env) = None"
    and "list_all valid_name (map ep_module (entry_points env))"
    and "valid_name pkg"
  shows "\<exists>dargs sargs.
           fst (docker_args env st)
             = Inr (dargs @ [''-w=/tmp'', identity_flag env, docker_image,
                             ''/dirac-webapp-compile.py''])
           \<and> fst (singularity_args env st)
             = Inr (sargs @ [''docker://'' @ docker_image, ''/dirac-webapp-compile.py''])
           \<and> filter (\<lambda>a. take 3 a = ''-u='')
                (sargs @ [''docker://'' @ docker_image, ''/dirac-webapp-compile.py'']) = []"
proof -
  let ?plan = "plan_of env pkg"
  have d: "fst (docker_args env st) = Inr (docker_render env ?plan)"
    using docker_args_ok [OF assms(1,2,3)] .
  have s: "fst (singularity_args env st) = Inr (singularity_render env ?plan)"
    using singularity_args_succeeds [OF assms] .
  have dr: "docker_render env ?plan
              = ([''run'', ''--rm''] @ map (\<lambda>b. ''-v='' @ bind_spec b) ?plan)
                @ [''-w=/tmp'', identity_flag env, docker_image, ''/dirac-webapp-compile.py'']"
    by (simp add: docker_render_def)
  have sr: "singularity_render env ?plan
              = ([''run'', ''--writable'', ''--containall'', ''--bind='' @ staging_bind env]
                   @ map (\<lambda>b. ''--bind='' @ bind_spec b) ?plan)
                @ [''docker://'' @ docker_image, ''/dirac-webapp-compile.py'']"
    by (simp add: singularity_render_def)
  show ?thesis
    using d s no_identity_flag_singularity [of env ?plan] unfolding dr sr by blast
qed

theorem trailing_arguments_witness:
  "top_level (distribution_packages env_docker) = [''mypkg'']
   \<and> name_attr_unset new_command
   \<and> find (ambiguous ''mypkg'') (entry_points env_docker) = None
   \<and> list_all valid_name (map ep_module (entry_points env_docker))
   \<and> valid_name ''mypkg''
   \<and> (\<exists>dargs sargs.
        fst (docker_args env_docker new_command)
          = Inr (dargs @ [''-w=/tmp'', identity_flag env_docker, docker_image,
                          ''/dirac-webapp-compile.py''])
        \<and> fst (singularity_args env_docker new_command)
          = Inr (sargs @ [''docker://'' @ docker_image, ''/dirac-webapp-compile.py''])
        \<and> filter (\<lambda>a. take 3 a = ''-u='')
             (sargs @ [''docker://'' @ docker_image, ''/dirac-webapp-compile.py'']) = [])"
  using trailing_arguments [OF env_docker_facts(1,2,3,4,5)] env_docker_facts(1,2,3,4,5)
  by simp

text \<open>
  The claim C5 itself fails on the example: the identity flag \<open>-u=1000:100\<close> is an
  argument of the docker vector and not of the singularity vector, and the four last
  arguments of the one are not the last arguments of the other.
\<close>

theorem identity_flag_counterexample:
  "fst (docker_args env_docker new_command) = Inr docker_args_example
   \<and> fst (singularity_args env_singularity new_command) = Inr singularity_args_example
   \<and> identity_flag env_docker = ''-u=1000:100''
   \<and> identity_flag env_singularity = ''-u=1000:100''
   \<and> identity_flag env_docker \<in> set docker_args_example
   \<and> identity_flag env_singularity \<notin> set singularity_args_example
   \<and> drop 5 docker_args_example
       = [''-w=/tmp'', ''-u=1000:100'', ''diracgrid/dirac-distribution:latest'',
          ''/dirac-webapp-compile.py'']
   \<and> drop 5 singularity_args_example
       = [''--bind=/host/a/static:/opt/pluginA/WebApp/static:ro'',
          ''--bind=/repo/src/mypkg:/opt/mypkg'',
          ''docker://diracgrid/dirac-distribution:latest'', ''/dirac-webapp-compile.py'']"
  using docker_args_env_docker singularity_args_env_singularity
  by (simp add: identity_flag_def example_defs str_nat.simps digit_def)


subsection \<open>The claims about errors of configuration\<close>

lemma find_ambiguous_exists:
  assumes "e \<in> set eps" and "ambiguous pkg e"
  shows "\<exists>e'. find (ambiguous pkg) eps = Some e' \<and> e' \<in> set eps \<and> ambiguous pkg e'"
proof (cases "find (ambiguous pkg) eps")
  case None
  then show ?thesis using assms by (auto simp: find_None_iff)
next
  case (Some e')
  then show ?thesis by (auto simp: find_Some_iff)
qed

text \<open>
  C3, as the code has it. When the package name resolves to \<open>pkg\<close> and an entry point
  of another module declares two or more static directories, there is a first such
  entry point in discovery order, and the mount plan, \<open>_docker_args\<close> and
  \<open>_singularity_args\<close> all raise the error whose argument is the full list of
  directories that this entry point declared; none of them returns a plan or an
  argument vector. The error carries the list and nothing else.
\<close>

theorem ambiguous_static_dirs_rejected:
  assumes "top_level (distribution_packages env) = [pkg]"
    and "name_attr_unset st"
    and "e \<in> set (entry_points env)"
    and "ep_module e \<noteq> pkg"
    and "2 \<le> length (declared e)"
  shows "\<exists>e'. find (ambiguous pkg) (entry_points env) = Some e'
            \<and> e' \<in> set (entry_points env) \<and> ep_module e' \<noteq> pkg \<and> 2 \<le> length (declared e')
            \<and> fst (mount_plan env st) = Inl (NotImplementedError_static_dirs (declared e'))
            \<and> fst (docker_args env st) = Inl (NotImplementedError_static_dirs (declared e'))
            \<and> fst (singularity_args env st) = Inl (NotImplementedError_static_dirs (declared e'))"
proof -
  have "ambiguous pkg e" using assms(4,5) by (simp add: ambiguous_iff)
  then obtain e' where f: "find (ambiguous pkg) (entry_points env) = Some e'"
    and m: "e' \<in> set (entry_points env)" and a: "ambiguous pkg e'"
    using find_ambiguous_exists [OF assms(3)] by blast
  have p: "fst (mount_plan env st) = Inl (NotImplementedError_static_dirs (declared e'))"
    using mount_plan_ambiguous [OF assms(1,2) f] .
  have d: "fst (docker_args env st) = Inl (NotImplementedError_static_dirs (declared e'))"
    by (simp add: fst_docker_args p)
  have s: "fst (singularity_args env st) = Inl (NotImplementedError_static_dirs (declared e'))"
    using singularity_args_ambiguous [OF assms(1,2) f] .
  show ?thesis using f m a p d s by (auto simp: ambiguous_iff)
qed

theorem ambiguous_static_dirs_rejected_witness:
  "top_level (distribution_packages (env_two ''pluginA'')) = [''mypkg'']
   \<and> name_attr_unset new_command
   \<and> plugin_two ''pluginA'' \<in> set (entry_points (env_two ''pluginA''))
   \<and> ep_module (plugin_two ''pluginA'') \<noteq> ''mypkg''
   \<and> 2 \<le> length (declared (plugin_two ''pluginA''))
   \<and> (\<exists>e'. find (ambiguous ''mypkg'') (entry_points (env_two ''pluginA'')) = Some e'
         \<and> fst (docker_args (env_two ''pluginA'') new_command)
             = Inl (NotImplementedError_static_dirs (declared e'))
         \<and> fst (singularity_args (env_two ''pluginA'') new_command)
             = Inl (NotImplementedError_static_dirs (declared e')))"
proof -
  have h: "top_level (distribution_packages (env_two ''pluginA'')) = [''mypkg'']"
    "name_attr_unset new_command"
    "plugin_two ''pluginA'' \<in> set (entry_points (env_two ''pluginA''))"
    "ep_module (plugin_two ''pluginA'') \<noteq> ''mypkg''"
    "2 \<le> length (declared (plugin_two ''pluginA''))"
    by (simp_all add: example_defs top_level_def name_attr_unset_def declared_def)
  show ?thesis
    using ambiguous_static_dirs_rejected [OF h] h by blast
qed

text \<open>
  The claim C3 itself fails where it says that the error names the plugin: two
  plugins with different names that declare the same two directories make discovery
  raise the same error, and the error holds the two directories only.
\<close>

theorem error_names_plugin_counterexample:
  "fst (docker_args (env_two ''pluginA'') new_command)
     = Inl (NotImplementedError_static_dirs [''/s1'', ''/s2''])
   \<and> fst (docker_args (env_two ''pluginB'') new_command)
     = Inl (NotImplementedError_static_dirs [''/s1'', ''/s2''])
   \<and> fst (singularity_args (env_two ''pluginA'') new_command)
     = fst (singularity_args (env_two ''pluginB'') new_command)
   \<and> ep_module (plugin_two ''pluginA'') \<noteq> ep_module (plugin_two ''pluginB'')"
  by (simp add: model_defs example_defs Let_def)

subsection \<open>The package name\<close>

lemma pkg_name_needed_everywhere:
  assumes "name_attr_unset st" and "length (top_level (distribution_packages env)) \<noteq> 1"
  shows "fst (pkg_name env st)
           = Inl (NotImplementedError_pkg_name (top_level (distribution_packages env)))"
    and "entry_points env \<noteq> [] \<Longrightarrow>
         snd (fst (bind_mounts env (entry_points env) st))
           = Some (NotImplementedError_pkg_name (top_level (distribution_packages env)))"
    and "fst (mount_plan env st)
           = Inl (NotImplementedError_pkg_name (top_level (distribution_packages env)))"
    and "fst (docker_args env st)
           = Inl (NotImplementedError_pkg_name (top_level (distribution_packages env)))"
    and "fst (singularity_args env st)
           = Inl (NotImplementedError_pkg_name (top_level (distribution_packages env)))"
  using pkg_name_error [OF assms] bind_mounts_pkg_error [OF assms, of "entry_points env"]
    mount_plan_pkg_error [OF assms] singularity_args_pkg_error [OF assms]
  by (simp_all add: fst_docker_args)

lemma pkg_name_unique:
  assumes "name_attr_unset st" and "top_level (distribution_packages env) = [pkg]"
  shows "fst (pkg_name env st) = Inr pkg"
    and "fst (pkg_name env (snd (pkg_name env st))) = Inr pkg"
  using pkg_name_ok [OF assms] pkg_name_ok [of "named pkg st" env pkg] assms by simp_all

text \<open>
  C10 speaks of a name computed once and reused. The code tests
  \<open>hasattr(self, "__name")\<close> but stores the name under the mangled attribute
  \<open>_build_extjs_sources__name\<close>, so the test never succeeds and every read of
  \<open>_pkg_name\<close> evaluates the list of packages again: after a first read that returned
  \<open>mypkg\<close> and stored it, a read with the packages \<open>[other]\<close> returns \<open>other\<close>.
\<close>

theorem pkg_name_recomputed:
  "fst (pkg_name env_docker new_command) = Inr ''mypkg''
   \<and> attrs (snd (pkg_name env_docker new_command)) ''_build_extjs_sources__name''
       = Some ''mypkg''
   \<and> ''__name'' \<notin> dom (attrs (snd (pkg_name env_docker new_command)))
   \<and> fst (pkg_name (env_docker\<lparr>distribution_packages := [''other'']\<rparr>)
            (snd (pkg_name env_docker new_command))) = Inr ''other''"
  by (simp add: pkg_name_def return_name_def example_defs Let_def)

end
